theory Spec2Isabelle
  imports Complex_Main
begin

section \<open>Exceptions\<close>

text \<open>
  The Python exceptions the program can meet, named after the \<open>except\<close> clause of
  \<open>download_file_async\<close> that catches them (the clauses are tried in the source's order, so a
  constructor stands for "an instance of this class and of none tried before it").
  \<open>TimeoutError\<close> is any instance of \<open>asyncio.TimeoutError\<close>: from Python 3.11 that class is
  the builtin \<open>TimeoutError\<close>, a subclass of \<open>OSError\<close> (of which \<open>IOError\<close> is an alias),
  so an \<open>OSError\<close> with \<open>errno\<close> \<open>ETIMEDOUT\<close> raised by \<open>open\<close> or \<open>write\<close> is one
  too. \<open>IOError\<close> is an \<open>OSError\<close> that is neither that nor an aiohttp \<open>ClientError\<close>.
  \<open>CancelledError\<close> stands for the exceptions that derive from \<open>BaseException\<close> only:
  no clause of the function catches them.
\<close>

datatype exn =
    TimeoutError
  | ClientError string
  | IOError string
  | ValueError
  | TypeError
  | OverflowError
  | OtherException string
  | CancelledError

section \<open>Dates\<close>

text \<open>
  A naive \<open>datetime\<close>: the proleptic Gregorian ordinal of its day (1 is 0001-01-01,
  \<open>MAXORDINAL\<close> is 9999-12-31) and the microsecond within the day (hour, minute, second and
  microsecond together). Python orders naive datetimes lexicographically on the two.
\<close>

record datetime =
  ordinal :: nat
  tod :: nat








subsection \<open>\<open>strftime\<close>\<close>








section \<open>Planning the file names\<close>





section \<open>The download engine\<close>

subsection \<open>What a task meets, and what it does\<close>

text \<open>
  A response as far as the function looks at it: the status, the \<open>Retry-After\<close> header when
  there is one, and what \<open>await response.read()\<close> gives (the body, or the exception it raises).
\<close>

record response =
  status :: int
  retry_after_header :: "string option"
  body :: "exn + string"

text \<open>
  What \<open>float\<close> gives on a string it reads: a finite number, or one of the three values that
  are not (\<open>float('inf')\<close> and \<open>float('1e400')\<close> are \<open>inf\<close>, \<open>float('nan')\<close> is \<open>nan\<close>).
\<close>

datatype py_float = Finite real | PosInf | NegInf | NaN

text \<open>
  How \<open>asyncio.sleep\<close> ends on a delay that is \<open>nan\<close>, which the source does not decide:
  from Python 3.13 it raises \<open>ValueError\<close>; before, the timer is queued with a \<open>nan\<close>
  deadline, and whether and when it fires depends on the other timers of the event loop.
\<close>

datatype sleep_end = SleepReturns | SleepRaises | SleepNever

text \<open>
  The world of one task, by attempt number: what \<open>session.get(url)\<close> gives, whether
  \<open>open(save_path, 'wb')\<close> raises, whether \<open>file.write(content)\<close> raises, and how a
  sleep with a \<open>nan\<close> delay ends.
\<close>

record world =
  get_result :: "nat \<Rightarrow> exn + response"
  open_result :: "nat \<Rightarrow> exn option"
  write_result :: "nat \<Rightarrow> exn option"
  nan_sleep :: "nat \<Rightarrow> sleep_end"

text \<open>\<open>Path(save_dir) / filename\<close>, kept as the two parts it is built from.\<close>

datatype path = PathDiv string string

text \<open>The lines the function prints, one constructor per \<open>print\<close> of the source.\<close>

datatype log_msg =
    LogRetry datetime nat real
  | LogOk datetime string
  | LogRateLimited datetime py_float
  | LogRateLimitedMax datetime
  | LogHttp datetime int
  | LogTimeoutRetry datetime
  | LogTimeoutMax datetime
  | LogNetworkRetry datetime
  | LogNetworkError datetime string
  | LogFileError datetime string
  | LogUnexpected datetime exn

text \<open>
  The effects of a task in the order it performs them: \<open>asyncio.sleep\<close> with a finite
  duration in seconds (it returns after that time, at once when the duration is not
  positive), \<open>asyncio.sleep\<close> with a delay that is not finite, the HTTP GET of a URL, the
  opening of the file for writing (which creates or truncates it), the writing of the
  content, and a printed line.
\<close>

datatype event =
    Sleep real
  | SleepOther py_float
  | Get string
  | Open path
  | Write path string
  | Print log_msg

text \<open>How a part of the loop body ends: with \<open>return\<close>, with \<open>continue\<close>, with an
  exception on its way out, or not at all (it awaits a sleep that does not return).\<close>

datatype flow = Return bool | Continue | Raise exn | Hang

text \<open>How a task ends: it returns or raises, as \<open>asyncio.gather(..., return_exceptions=True)\<close>
  records it, or it never ends.\<close>

datatype task_result = Returned bool | Raised exn | Never

definition BASE_URL :: string where
  "BASE_URL = ''https://promo.betfair.com/betfairsp/prices/''"

definition max_retries :: nat where
  "max_retries = 3"

definition base_delay :: real where
  "base_delay = 1"

subsection \<open>\<open>download_file_async\<close> (main.py, lines 114-178)\<close>

text \<open>Lines 127-133: the sleep at the head of every attempt.\<close>

definition pre_delay :: "datetime \<Rightarrow> nat \<Rightarrow> event list" where
  "pre_delay date attempt =
     (if attempt > 0 then
        (let delay = base_delay * 2 ^ (attempt - 1)
         in [Print (LogRetry date attempt delay), Sleep delay])
      else [Sleep (1 / 10)])"

text \<open>
  Lines 136-157: the branches on the status. \<open>float_py\<close> is Python's \<open>float\<close> on a string:
  \<open>None\<close> where it raises \<open>ValueError\<close>, otherwise the value it gives. The sleep of line 150
  returns after a finite time, returns at once on \<open>-inf\<close> (the delay is not positive), and
  never returns on \<open>inf\<close>; on \<open>nan\<close> it ends as the world says.
\<close>

definition on_response ::
  "(string \<Rightarrow> py_float option) \<Rightarrow> world \<Rightarrow> path \<Rightarrow> datetime \<Rightarrow> string \<Rightarrow> nat \<Rightarrow> response \<Rightarrow>
   flow \<times> event list" where
  "on_response float_py w save_path date filename attempt resp =
     (if status resp = 200 then
        (case body resp of
           Inl e \<Rightarrow> (Raise e, [])
         | Inr content \<Rightarrow>
             (case open_result w attempt of
                Some e \<Rightarrow> (Raise e, [])
              | None \<Rightarrow>
                  (case write_result w attempt of
                     Some e \<Rightarrow> (Raise e, [Open save_path])
                   | None \<Rightarrow>
                       (Return True,
                        [Open save_path, Write save_path content, Print (LogOk date filename)]))))
      else if status resp = 429 then
        (if attempt < max_retries then
           (let retry_after = (case retry_after_header resp of None \<Rightarrow> ''5'' | Some v \<Rightarrow> v)
            in case float_py retry_after of
                 None \<Rightarrow> (Raise ValueError, [])
               | Some wait_time \<Rightarrow>
                   (case wait_time of
                      Finite t \<Rightarrow>
                        (Continue, [Print (LogRateLimited date wait_time), Sleep t])
                    | NegInf \<Rightarrow>
                        (Continue, [Print (LogRateLimited date wait_time), SleepOther NegInf])
                    | PosInf \<Rightarrow>
                        (Hang, [Print (LogRateLimited date wait_time), SleepOther PosInf])
                    | NaN \<Rightarrow>
                        (case nan_sleep w attempt of
                           SleepReturns \<Rightarrow>
                             (Continue, [Print (LogRateLimited date wait_time), SleepOther NaN])
                         | SleepRaises \<Rightarrow>
                             (Raise ValueError, [Print (LogRateLimited date wait_time)])
                         | SleepNever \<Rightarrow>
                             (Hang, [Print (LogRateLimited date wait_time), SleepOther NaN]))))
         else (Return False, [Print (LogRateLimitedMax date)]))
      else (Return False, [Print (LogHttp date (status resp))]))"

text \<open>Lines 126-157: the body of the \<open>try\<close>.\<close>

definition try_body ::
  "(string \<Rightarrow> py_float option) \<Rightarrow> world \<Rightarrow> string \<Rightarrow> path \<Rightarrow> datetime \<Rightarrow> string \<Rightarrow> nat \<Rightarrow>
   flow \<times> event list" where
  "try_body float_py w url save_path date filename attempt =
     (case get_result w attempt of
        Inl e \<Rightarrow> (Raise e, pre_delay date attempt @ [Get url])
      | Inr resp \<Rightarrow>
          (case on_response float_py w save_path date filename attempt resp of
             (f, evs) \<Rightarrow> (f, pre_delay date attempt @ [Get url] @ evs)))"

text \<open>Lines 159-176: the \<open>except\<close> clauses, in the source's order.\<close>

definition handle_exn :: "datetime \<Rightarrow> nat \<Rightarrow> exn \<Rightarrow> flow \<times> event list" where
  "handle_exn date attempt e =
     (case e of
        TimeoutError \<Rightarrow>
          (if attempt < max_retries then (Continue, [Print (LogTimeoutRetry date)])
           else (Return False, [Print (LogTimeoutMax date)]))
      | ClientError m \<Rightarrow>
          (if attempt < max_retries then (Continue, [Print (LogNetworkRetry date)])
           else (Return False, [Print (LogNetworkError date m)]))
      | IOError m \<Rightarrow> (Return False, [Print (LogFileError date m)])
      | CancelledError \<Rightarrow> (Raise CancelledError, [])
      | _ \<Rightarrow> (Return False, [Print (LogUnexpected date e)]))"

text \<open>One pass of the \<open>for\<close> loop: the \<open>try\<close> with its handlers.\<close>

definition iteration ::
  "(string \<Rightarrow> py_float option) \<Rightarrow> world \<Rightarrow> string \<Rightarrow> path \<Rightarrow> datetime \<Rightarrow> string \<Rightarrow> nat \<Rightarrow>
   flow \<times> event list" where
  "iteration float_py w url save_path date filename attempt =
     (case try_body float_py w url save_path date filename attempt of
        (Raise e, evs) \<Rightarrow> (case handle_exn date attempt e of (f, evs') \<Rightarrow> (f, evs @ evs'))
      | (f, evs) \<Rightarrow> (f, evs))"

text \<open>\<open>for attempt in range(max_retries + 1)\<close>, over the list of the attempt numbers left;
  line 178 is the \<open>return False\<close> after the loop.\<close>

fun for_loop ::
  "(string \<Rightarrow> py_float option) \<Rightarrow> world \<Rightarrow> string \<Rightarrow> path \<Rightarrow> datetime \<Rightarrow> string \<Rightarrow> nat list \<Rightarrow>
   task_result \<times> event list" where
  "for_loop float_py w url save_path date filename [] = (Returned False, [])"
| "for_loop float_py w url save_path date filename (attempt # rest) =
     (case iteration float_py w url save_path date filename attempt of
        (Return b, evs) \<Rightarrow> (Returned b, evs)
      | (Raise e, evs) \<Rightarrow> (Raised e, evs)
      | (Hang, evs) \<Rightarrow> (Never, evs)
      | (Continue, evs) \<Rightarrow>
          (case for_loop float_py w url save_path date filename rest of
             (r, evs') \<Rightarrow> (r, evs @ evs')))"

text \<open>
  The whole function. The file name is \<open>None\<close> where the planner gave none; then
  \<open>Path(save_dir) / filename\<close> (line 117, before the \<open>try\<close>) raises \<open>TypeError\<close>.
\<close>

definition download_file_async ::
  "(string \<Rightarrow> py_float option) \<Rightarrow> world \<Rightarrow> string option \<Rightarrow> datetime \<Rightarrow> string \<Rightarrow>
   task_result \<times> event list" where
  "download_file_async float_py w filename date save_dir =
     (case filename of
        None \<Rightarrow> (Raised TypeError, [])
      | Some fname \<Rightarrow>
          for_loop float_py w (BASE_URL @ fname) (PathDiv save_dir fname) date fname
            [0 ..< max_retries + 1])"

subsection \<open>\<open>download_all_files\<close> (main.py, lines 93-112)\<close>

text \<open>
  What a run gives: the number announced at the start, how each task ends (in the order of
  the requests: the list \<open>gather\<close> returns), the effects of each task, and the two counts of
  the summary. \<open>gather\<close> returns once every task has ended: \<open>gather_returns\<close> tells whether
  it does, and when a task never ends the lines after it are not reached.
  The tasks share nothing but the semaphore and the connection pool, so each task's result
  and effects are those of \<open>download_file_async\<close> in its own world; how the tasks interleave
  is not part of this model, and the connector and the session are taken to be built without
  error.
\<close>

record run =
  started :: nat
  gather_returns :: bool
  results :: "task_result list"
  traces :: "event list list"
  successful :: int
  failed :: int


subsection \<open>Reading a trace\<close>

text \<open>The number of requests sent, and of file writes.\<close>

fun is_get :: "event \<Rightarrow> bool" where
  "is_get (Get u) = True"
| "is_get _ = False"

fun is_write :: "event \<Rightarrow> bool" where
  "is_write (Write p c) = True"
| "is_write _ = False"


definition attempts_made :: "event list \<Rightarrow> nat" where
  "attempts_made evs = length (filter is_get evs)"

definition file_writes :: "event list \<Rightarrow> nat" where
  "file_writes evs = length (filter is_write evs)"

text \<open>For each request sent, the seconds of the finite sleeps since the request before it
  (since the start, for the first).\<close>

fun waits_from :: "real \<Rightarrow> event list \<Rightarrow> real list" where
  "waits_from acc [] = []"
| "waits_from acc (Sleep d # evs) = waits_from (acc + d) evs"
| "waits_from acc (SleepOther f # evs) = waits_from acc evs"
| "waits_from acc (Get u # evs) = acc # waits_from 0 evs"
| "waits_from acc (Open p # evs) = waits_from acc evs"
| "waits_from acc (Write p c # evs) = waits_from acc evs"
| "waits_from acc (Print m # evs) = waits_from acc evs"

definition waits_before_attempts :: "event list \<Rightarrow> real list" where
  "waits_before_attempts evs = waits_from 0 evs"

text \<open>The durations of all the finite sleeps of a trace, in order.\<close>

fun sleeps :: "event list \<Rightarrow> real list" where
  "sleeps [] = []"
| "sleeps (Sleep d # evs) = d # sleeps evs"
| "sleeps (SleepOther f # evs) = sleeps evs"
| "sleeps (Get u # evs) = sleeps evs"
| "sleeps (Open p # evs) = sleeps evs"
| "sleeps (Write p c # evs) = sleeps evs"
| "sleeps (Print m # evs) = sleeps evs"

text \<open>An attempt times out: \<open>asyncio.TimeoutError\<close> comes out of \<open>session.get\<close>, or out
  of \<open>response.read()\<close> on a 200 response.\<close>

definition attempt_times_out :: "world \<Rightarrow> nat \<Rightarrow> bool" where
  "attempt_times_out w k =
     (case get_result w k of
        Inl e \<Rightarrow> e = TimeoutError
      | Inr resp \<Rightarrow> status resp = 200 \<and> body resp = Inl TimeoutError)"

text \<open>
  A stand-in for \<open>float\<close> in the examples. It reads an unsigned decimal integer as \<open>float\<close>
  does and gives \<open>None\<close> on every other string; the examples apply it only to such integers
  and to an HTTP date, on which \<open>float\<close> raises \<open>ValueError\<close>. The general statements
  take \<open>float_py\<close> as a parameter.
\<close>

definition digit_value :: "char \<Rightarrow> nat option" where
  "digit_value c = (if c \<in> set ''0123456789'' then Some (of_char c - 48) else None)"

fun digits_value :: "nat \<Rightarrow> string \<Rightarrow> nat option" where
  "digits_value acc [] = Some acc"
| "digits_value acc (c # cs) =
     (case digit_value c of None \<Rightarrow> None | Some v \<Rightarrow> digits_value (10 * acc + v) cs)"

definition float_digits :: "string \<Rightarrow> py_float option" where
  "float_digits s =
     (if s = [] then None else map_option (\<lambda>n. Finite (real n)) (digits_value 0 s))"

subsection \<open>Example worlds\<close>

text \<open>A world whose disk never fails (and where a sleep on \<open>nan\<close> returns), a response
  with no \<open>Retry-After\<close> header and an empty body, a 200 response with a body, a 429
  response with a \<open>Retry-After\<close> header, and a day (2024-02-29) at midnight.\<close>

definition world_of :: "(nat \<Rightarrow> exn + response) \<Rightarrow> world" where
  "world_of g =
     \<lparr> get_result = g, open_result = (\<lambda>k. None), write_result = (\<lambda>k. None),
       nan_sleep = (\<lambda>k. SleepReturns) \<rparr>"

definition plain_response :: "int \<Rightarrow> response" where
  "plain_response st = \<lparr> status = st, retry_after_header = None, body = Inr [] \<rparr>"

definition ok_response :: "string \<Rightarrow> response" where
  "ok_response content = \<lparr> status = 200, retry_after_header = None, body = Inr content \<rparr>"

definition rate_limited_response :: "string \<Rightarrow> response" where
  "rate_limited_response v = \<lparr> status = 429, retry_after_header = Some v, body = Inr [] \<rparr>"

definition example_date :: datetime where
  "example_date = \<lparr> ordinal = 738945, tod = 0 \<rparr>"

section \<open>The summary of a run\<close>










section \<open>The attempts of one task\<close>

subsection \<open>The attempt numbers\<close>

lemma attempt_numbers: "[0 ..< max_retries + 1] = [0, 1, 2, 3]"
  by (simp add: max_retries_def upt_conv_Cons)

lemma download_file_async_Some:
  "download_file_async float_py w (Some fname) date save_dir =
     for_loop float_py w (BASE_URL @ fname) (PathDiv save_dir fname) date fname [0, 1, 2, 3]"
  unfolding download_file_async_def attempt_numbers by simp

lemma attempt_numbers_split:
  assumes "k \<le> max_retries"
  shows "[0 ..< max_retries + 1] = [0 ..< k] @ k # [Suc k ..< max_retries + 1]"
proof -
  have "[0 ..< max_retries + 1] = [0 ..< k] @ [k ..< max_retries + 1]"
    using assms by (metis upt_add_eq_append le_add_diff_inverse add.commute zero_le le_SucI Suc_eq_plus1 le_Suc_ex)
  moreover have "[k ..< max_retries + 1] = k # [Suc k ..< max_retries + 1]"
    using assms by (simp add: upt_conv_Cons)
  ultimately show ?thesis by simp
qed

subsection \<open>Every pass of the loop sends exactly one request\<close>

lemma no_get_pre_delay: "filter is_get (pre_delay date k) = []"
  by (simp add: pre_delay_def Let_def)

lemma no_get_on_response:
  "filter is_get (snd (on_response float_py w p date fname k resp)) = []"
  by (simp add: on_response_def Let_def
        split: sum.splits option.splits py_float.splits sleep_end.splits)

lemma no_get_handle_exn: "filter is_get (snd (handle_exn date k e)) = []"
  by (simp add: handle_exn_def split: exn.splits)

lemma gets_try_body:
  "filter is_get (snd (try_body float_py w url p date fname k)) = [Get url]"
  by (simp add: try_body_def case_prod_unfold no_get_pre_delay no_get_on_response
        split: sum.splits)

lemma gets_iteration:
  "filter is_get (snd (iteration float_py w url p date fname k)) = [Get url]"
proof -
  obtain f evs where tb: "try_body float_py w url p date fname k = (f, evs)"
    by (cases "try_body float_py w url p date fname k")
  with gets_try_body [of float_py w url p date fname k] have evs: "filter is_get evs = [Get url]"
    by simp
  show ?thesis
    by (cases f) (simp_all add: iteration_def tb evs case_prod_unfold no_get_handle_exn)
qed

lemma attempts_made_iteration:
  "attempts_made (snd (iteration float_py w url p date fname k)) = 1"
  by (simp add: attempts_made_def gets_iteration)

lemma attempts_made_append: "attempts_made (xs @ ys) = attempts_made xs + attempts_made ys"
  by (simp add: attempts_made_def)

lemma attempts_made_prefix:
  "attempts_made (concat (map (\<lambda>j. snd (iteration float_py w url p date fname j)) js)) = length js"
  by (induction js) (simp_all add: attempts_made_append attempts_made_iteration, simp add: attempts_made_def)



subsection \<open>The loop, pass by pass\<close>

lemma for_loop_prefix:
  assumes "\<forall>j \<in> set js. fst (iteration float_py w url p date fname j) = Continue"
  shows "for_loop float_py w url p date fname (js @ rest) =
           (fst (for_loop float_py w url p date fname rest),
            concat (map (\<lambda>j. snd (iteration float_py w url p date fname j)) js)
              @ snd (for_loop float_py w url p date fname rest))"
  using assms
proof (induction js)
  case Nil
  then show ?case by simp
next
  case (Cons j js)
  then obtain evs where "iteration float_py w url p date fname j = (Continue, evs)"
    by (cases "iteration float_py w url p date fname j") auto
  with Cons show ?case by (simp add: case_prod_unfold)
qed

lemma for_loop_stop:
  assumes "iteration float_py w url p date fname k = (Return b, evs)"
  shows "for_loop float_py w url p date fname (k # rest) = (Returned b, evs)"
  using assms by simp


text \<open>The run up to attempt \<open>k\<close>, when every earlier attempt ended in \<open>continue\<close>.\<close>

lemma download_file_async_reaches:
  assumes "k \<le> max_retries"
    and "\<forall>j<k. fst (iteration float_py w (BASE_URL @ fname) (PathDiv save_dir fname) date fname j) = Continue"
  shows "download_file_async float_py w (Some fname) date save_dir =
           (fst (for_loop float_py w (BASE_URL @ fname) (PathDiv save_dir fname) date fname
                   (k # [Suc k ..< max_retries + 1])),
            concat (map (\<lambda>j. snd (iteration float_py w (BASE_URL @ fname) (PathDiv save_dir fname) date fname j)) [0 ..< k])
              @ snd (for_loop float_py w (BASE_URL @ fname) (PathDiv save_dir fname) date fname
                   (k # [Suc k ..< max_retries + 1])))"
proof -
  have "\<forall>j \<in> set [0 ..< k]. fst (iteration float_py w (BASE_URL @ fname) (PathDiv save_dir fname) date fname j) = Continue"
    using assms(2) by simp
  from for_loop_prefix [OF this] show ?thesis
    unfolding download_file_async_def attempt_numbers_split [OF assms(1)] by simp
qed

text \<open>The run that stops at attempt \<open>k\<close>.\<close>

lemma download_file_async_stops:
  assumes "k \<le> max_retries"
    and "\<forall>j<k. fst (iteration float_py w (BASE_URL @ fname) (PathDiv save_dir fname) date fname j) = Continue"
    and "iteration float_py w (BASE_URL @ fname) (PathDiv save_dir fname) date fname k = (Return b, evs)"
  shows "download_file_async float_py w (Some fname) date save_dir =
           (Returned b,
            concat (map (\<lambda>j. snd (iteration float_py w (BASE_URL @ fname) (PathDiv save_dir fname) date fname j)) [0 ..< k]) @ evs)"
    and "attempts_made (snd (download_file_async float_py w (Some fname) date save_dir)) = k + 1"
proof -
  show run: "download_file_async float_py w (Some fname) date save_dir =
           (Returned b,
            concat (map (\<lambda>j. snd (iteration float_py w (BASE_URL @ fname) (PathDiv save_dir fname) date fname j)) [0 ..< k]) @ evs)"
    unfolding download_file_async_reaches [OF assms(1,2)] for_loop_stop [OF assms(3)] by simp
  have "attempts_made evs = 1"
    using attempts_made_iteration [of float_py w "BASE_URL @ fname" "PathDiv save_dir fname" date fname k]
    by (simp add: assms(3))
  then show "attempts_made (snd (download_file_async float_py w (Some fname) date save_dir)) = k + 1"
    by (simp add: run attempts_made_append attempts_made_prefix)
qed



subsection \<open>One pass, by what the attempt meets\<close>

lemma iteration_http_error:
  assumes "get_result w k = Inr resp" and "status resp \<noteq> 200" and "status resp \<noteq> 429"
  shows "iteration float_py w url p date fname k =
           (Return False, pre_delay date k @ [Get url, Print (LogHttp date (status resp))])"
  using assms by (simp add: iteration_def try_body_def on_response_def)

lemma iteration_ok:
  assumes "get_result w k = Inr resp" and "status resp = 200" and "body resp = Inr content"
    and "open_result w k = None" and "write_result w k = None"
  shows "iteration float_py w url p date fname k =
           (Return True, pre_delay date k @ [Get url, Open p, Write p content, Print (LogOk date fname)])"
  using assms by (simp add: iteration_def try_body_def on_response_def)



lemma iteration_timeout:
  assumes "attempt_times_out w k"
  shows "iteration float_py w url p date fname k =
           (if k < max_retries
            then (Continue, pre_delay date k @ [Get url, Print (LogTimeoutRetry date)])
            else (Return False, pre_delay date k @ [Get url, Print (LogTimeoutMax date)]))"
  using assms
  by (cases "get_result w k")
     (simp_all add: attempt_times_out_def iteration_def try_body_def on_response_def handle_exn_def)

lemma iteration_rate_limited:
  assumes "get_result w k = Inr resp" and "status resp = 429" and "k < max_retries"
    and "float_py (case retry_after_header resp of None \<Rightarrow> ''5'' | Some v \<Rightarrow> v)
           = Some (Finite t)"
  shows "iteration float_py w url p date fname k =
           (Continue,
            pre_delay date k @ [Get url, Print (LogRateLimited date (Finite t)), Sleep t])"
  using assms by (simp add: iteration_def try_body_def on_response_def)

lemma iteration_rate_limited_inf:
  assumes "get_result w k = Inr resp" and "status resp = 429" and "k < max_retries"
    and "float_py (case retry_after_header resp of None \<Rightarrow> ''5'' | Some v \<Rightarrow> v) = Some PosInf"
  shows "iteration float_py w url p date fname k =
           (Hang, pre_delay date k @ [Get url, Print (LogRateLimited date PosInf), SleepOther PosInf])"
  using assms by (simp add: iteration_def try_body_def on_response_def)

text \<open>A \<open>Retry-After\<close> value read as \<open>inf\<close> with retries left: the task awaits
  \<open>asyncio.sleep(inf)\<close> and never ends.\<close>

lemma download_file_async_inf_never_ends:
  assumes "k \<le> max_retries"
    and "\<forall>j<k. fst (iteration float_py w (BASE_URL @ fname) (PathDiv save_dir fname) date fname j) = Continue"
    and "get_result w k = Inr resp" and "status resp = 429" and "k < max_retries"
    and "float_py (case retry_after_header resp of None \<Rightarrow> ''5'' | Some v \<Rightarrow> v) = Some PosInf"
  shows "fst (download_file_async float_py w (Some fname) date save_dir) = Never"
proof -
  have "iteration float_py w (BASE_URL @ fname) (PathDiv save_dir fname) date fname k =
          (Hang, pre_delay date k @ [Get (BASE_URL @ fname), Print (LogRateLimited date PosInf),
             SleepOther PosInf])"
    using assms(3-6) by (rule iteration_rate_limited_inf)
  then show ?thesis
    unfolding download_file_async_reaches [OF assms(1,2)] by simp
qed


lemma iteration_rate_limited_unparseable:
  assumes "get_result w k = Inr resp" and "status resp = 429" and "k < max_retries"
    and "float_py (case retry_after_header resp of None \<Rightarrow> ''5'' | Some v \<Rightarrow> v) = None"
  shows "iteration float_py w url p date fname k =
           (Return False, pre_delay date k @ [Get url, Print (LogUnexpected date ValueError)])"
  using assms by (simp add: iteration_def try_body_def on_response_def handle_exn_def)

subsection \<open>Evaluating the examples\<close>

lemma float_digits_2: "float_digits ''2'' = Some (Finite 2)"
  by (simp add: float_digits_def digit_value_def)



lemmas world_defs = world_of_def plain_response_def ok_response_def rate_limited_response_def

lemmas engine_defs = iteration_def try_body_def on_response_def handle_exn_def pre_delay_def
  base_delay_def attempts_made_def waits_before_attempts_def file_writes_def

lemma retries_left:
  "(0 < max_retries) = True" "(Suc 0 < max_retries) = True" "(1 < max_retries) = True"
  "(2 < max_retries) = True" "(3 < max_retries) = False"
  "(0 \<le> max_retries) = True" "(Suc 0 \<le> max_retries) = True" "(1 \<le> max_retries) = True"
  "(2 \<le> max_retries) = True" "(3 \<le> max_retries) = True"
  by (simp_all add: max_retries_def)

lemma all_less_1: "(\<forall>j<(1::nat). P j) = P 0"
  by (simp add: less_Suc_eq)


lemma upt_small: "[0 ..< 1] = [0]" "[0 ..< 3] = [0, 1, 2]"
  by (simp_all add: upt_conv_Cons)

section \<open>What a task does, case by case\<close>

text \<open>
  In the statements below, "the attempt \<open>k\<close> is reached" is the hypothesis that every
  earlier pass of the loop ended in \<open>continue\<close>. The seconds of a sleep are the real numbers
  the source's float expressions denote.
\<close>

subsection \<open>Success at the first attempt\<close>

text \<open>
  Claim C9. When the first attempt returns HTTP 200 and the body is read and written without
  error, \<open>download_file_async\<close> returns \<open>True\<close>, writes the file once, with the whole
  body, at \<open>Path(save_dir) / filename\<close>, sends one request, and sleeps only the 0.1 s before
  that request.
\<close>

theorem first_attempt_ok:
  assumes "get_result w 0 = Inr resp" and "status resp = 200" and "body resp = Inr content"
    and "open_result w 0 = None" and "write_result w 0 = None"
  shows "download_file_async float_py w (Some fname) date save_dir =
           (Returned True,
            [Sleep (1 / 10), Get (BASE_URL @ fname), Open (PathDiv save_dir fname),
             Write (PathDiv save_dir fname) content, Print (LogOk date fname)])
         \<and> file_writes (snd (download_file_async float_py w (Some fname) date save_dir)) = 1
         \<and> attempts_made (snd (download_file_async float_py w (Some fname) date save_dir)) = 1
         \<and> sleeps (snd (download_file_async float_py w (Some fname) date save_dir)) = [1 / 10]"
proof -
  have "download_file_async float_py w (Some fname) date save_dir =
           (Returned True,
            [Sleep (1 / 10), Get (BASE_URL @ fname), Open (PathDiv save_dir fname),
             Write (PathDiv save_dir fname) content, Print (LogOk date fname)])"
    unfolding download_file_async_Some
    by (simp add: iteration_ok [OF assms] pre_delay_def)
  then show ?thesis
    by (simp add: file_writes_def attempts_made_def)
qed

text \<open>
  The theorem at a world whose every request returns 200 with the body \<open>data\<close>.
\<close>

theorem first_attempt_ok_witness:
  "download_file_async float_digits (world_of (\<lambda>k. Inr (ok_response ''data'')))
       (Some ''f.csv'') example_date ''dir'' =
     (Returned True,
      [Sleep (1 / 10), Get (BASE_URL @ ''f.csv''), Open (PathDiv ''dir'' ''f.csv''),
       Write (PathDiv ''dir'' ''f.csv'') ''data'', Print (LogOk example_date ''f.csv'')])
   \<and> file_writes (snd (download_file_async float_digits (world_of (\<lambda>k. Inr (ok_response ''data'')))
       (Some ''f.csv'') example_date ''dir'')) = 1
   \<and> sleeps (snd (download_file_async float_digits (world_of (\<lambda>k. Inr (ok_response ''data'')))
       (Some ''f.csv'') example_date ''dir'')) = [1 / 10]"
  using first_attempt_ok [of "world_of (\<lambda>k. Inr (ok_response ''data''))" "ok_response ''data''"
      "''data''" float_digits "''f.csv''" example_date "''dir''"]
  by (simp add: world_defs file_writes_def)

subsection \<open>A status other than 200 and 429\<close>

text \<open>
  Claim C4. When the attempt \<open>k\<close> is reached and its response has a status that is neither
  200 nor 429, \<open>download_file_async\<close> prints the HTTP status and returns \<open>False\<close> at once:
  the trace ends with that request and that line, and \<open>k + 1\<close> requests were sent in all.
  At the first attempt the only sleep is the 0.1 s before the request.
\<close>

theorem http_error_fails_without_retry:
  assumes "k \<le> max_retries"
    and "\<forall>j<k. fst (iteration float_py w (BASE_URL @ fname) (PathDiv save_dir fname) date fname j) = Continue"
    and "get_result w k = Inr resp" and "status resp \<noteq> 200" and "status resp \<noteq> 429"
  shows "download_file_async float_py w (Some fname) date save_dir =
           (Returned False,
            concat (map (\<lambda>j. snd (iteration float_py w (BASE_URL @ fname) (PathDiv save_dir fname) date fname j)) [0 ..< k])
              @ pre_delay date k @ [Get (BASE_URL @ fname), Print (LogHttp date (status resp))])
         \<and> attempts_made (snd (download_file_async float_py w (Some fname) date save_dir)) = k + 1
         \<and> (k = 0 \<longrightarrow>
               sleeps (snd (download_file_async float_py w (Some fname) date save_dir)) = [1 / 10])"
  using download_file_async_stops [OF assms(1,2) iteration_http_error [OF assms(3,4,5)]]
  by (simp add: pre_delay_def)

text \<open>
  The theorem at a world whose every request returns 500 (one attempt, no retry delay), and
  at a world whose first request times out and whose second returns 404.
\<close>

theorem http_error_fails_without_retry_witness:
  "download_file_async float_digits (world_of (\<lambda>k. Inr (plain_response 500)))
       (Some ''f.csv'') example_date ''dir'' =
     (Returned False,
      [Sleep (1 / 10), Get (BASE_URL @ ''f.csv''), Print (LogHttp example_date 500)])
   \<and> attempts_made (snd (download_file_async float_digits (world_of (\<lambda>k. Inr (plain_response 500)))
       (Some ''f.csv'') example_date ''dir'')) = 1
   \<and> sleeps (snd (download_file_async float_digits (world_of (\<lambda>k. Inr (plain_response 500)))
       (Some ''f.csv'') example_date ''dir'')) = [1 / 10]
   \<and> download_file_async float_digits
       (world_of (\<lambda>k. if k = 0 then Inl TimeoutError else Inr (plain_response 404)))
       (Some ''f.csv'') example_date ''dir'' =
     (Returned False,
      [Sleep (1 / 10), Get (BASE_URL @ ''f.csv''), Print (LogTimeoutRetry example_date),
       Print (LogRetry example_date 1 1), Sleep 1, Get (BASE_URL @ ''f.csv''),
       Print (LogHttp example_date 404)])
   \<and> attempts_made (snd (download_file_async float_digits
       (world_of (\<lambda>k. if k = 0 then Inl TimeoutError else Inr (plain_response 404)))
       (Some ''f.csv'') example_date ''dir'')) = 2"
  using http_error_fails_without_retry [of 0 float_digits "world_of (\<lambda>k. Inr (plain_response 500))"
      "''f.csv''" "''dir''" example_date "plain_response 500"]
    http_error_fails_without_retry [of 1 float_digits
      "world_of (\<lambda>k. if k = 0 then Inl TimeoutError else Inr (plain_response 404))"
      "''f.csv''" "''dir''" example_date "plain_response 404"]
  by (simp add: world_defs engine_defs retries_left all_less_1 upt_small)

subsection \<open>A file error\<close>




subsection \<open>A timeout at every attempt\<close>

text \<open>
  Claim C5. With \<open>max_retries = 3\<close> and \<open>base_delay = 1.0\<close>, a request that times out at
  every attempt is sent exactly 4 times, \<open>download_file_async\<close> prints the timeout line of the
  exhausted retries and returns \<open>False\<close>, and the sleeps before the attempts 2, 3 and 4 are
  1 s, 2 s and 4 s (0.1 s before the first).
\<close>

theorem timeouts_exhaust_retries:
  assumes "\<forall>k\<le>max_retries. attempt_times_out w k"
  shows "download_file_async float_py w (Some fname) date save_dir =
           (Returned False,
            [Sleep (1 / 10), Get (BASE_URL @ fname), Print (LogTimeoutRetry date),
             Print (LogRetry date 1 1), Sleep 1, Get (BASE_URL @ fname), Print (LogTimeoutRetry date),
             Print (LogRetry date 2 2), Sleep 2, Get (BASE_URL @ fname), Print (LogTimeoutRetry date),
             Print (LogRetry date 3 4), Sleep 4, Get (BASE_URL @ fname), Print (LogTimeoutMax date)])
         \<and> attempts_made (snd (download_file_async float_py w (Some fname) date save_dir)) = 4
         \<and> waits_before_attempts (snd (download_file_async float_py w (Some fname) date save_dir))
             = [1 / 10, 1, 2, 4]"
proof -
  have t: "attempt_times_out w 0" "attempt_times_out w (Suc 0)" "attempt_times_out w 2" "attempt_times_out w 3"
    using assms by (simp_all add: max_retries_def)
  have "download_file_async float_py w (Some fname) date save_dir =
           (Returned False,
            [Sleep (1 / 10), Get (BASE_URL @ fname), Print (LogTimeoutRetry date),
             Print (LogRetry date 1 1), Sleep 1, Get (BASE_URL @ fname), Print (LogTimeoutRetry date),
             Print (LogRetry date 2 2), Sleep 2, Get (BASE_URL @ fname), Print (LogTimeoutRetry date),
             Print (LogRetry date 3 4), Sleep 4, Get (BASE_URL @ fname), Print (LogTimeoutMax date)])"
    unfolding download_file_async_Some
    by (simp add: iteration_timeout [OF t(1)] iteration_timeout [OF t(2)] iteration_timeout [OF t(3)]
          iteration_timeout [OF t(4)] pre_delay_def max_retries_def base_delay_def)
  then show ?thesis
    by (simp add: attempts_made_def waits_before_attempts_def)
qed

text \<open>
  The theorem at the world whose every request raises the timeout.
\<close>

theorem timeouts_exhaust_retries_witness:
  "attempt_times_out (world_of (\<lambda>k. Inl TimeoutError)) 0
   \<and> attempt_times_out (world_of (\<lambda>k. Inl TimeoutError)) max_retries
   \<and> fst (download_file_async float_digits (world_of (\<lambda>k. Inl TimeoutError))
       (Some ''f.csv'') example_date ''dir'') = Returned False
   \<and> attempts_made (snd (download_file_async float_digits (world_of (\<lambda>k. Inl TimeoutError))
       (Some ''f.csv'') example_date ''dir'')) = 4
   \<and> waits_before_attempts (snd (download_file_async float_digits (world_of (\<lambda>k. Inl TimeoutError))
       (Some ''f.csv'') example_date ''dir'')) = [1 / 10, 1, 2, 4]"
  using timeouts_exhaust_retries [of "world_of (\<lambda>k. Inl TimeoutError)" float_digits
      "''f.csv''" example_date "''dir''"]
  by (simp add: world_defs attempt_times_out_def attempts_made_def waits_before_attempts_def)

subsection \<open>Rate limiting\<close>

text \<open>
  Claim C2, as the code has it. When the first attempt returns HTTP 429 with
  \<open>Retry-After: 2\<close> and the second returns HTTP 200 (body read and written without error),
  \<open>download_file_async\<close> returns \<open>True\<close> after two requests, and between them it sleeps the
  2 s of the header and then the 1 s of the exponential backoff of retry 1: 3 s in all.
\<close>

theorem rate_limited_then_ok:
  assumes "get_result w 0 = Inr r0" and "status r0 = 429"
    and "retry_after_header r0 = Some ''2''" and "float_py ''2'' = Some (Finite 2)"
    and "get_result w 1 = Inr r1" and "status r1 = 200" and "body r1 = Inr content"
    and "open_result w 1 = None" and "write_result w 1 = None"
  shows "download_file_async float_py w (Some fname) date save_dir =
           (Returned True,
            [Sleep (1 / 10), Get (BASE_URL @ fname), Print (LogRateLimited date (Finite 2)), Sleep 2,
             Print (LogRetry date 1 1), Sleep 1, Get (BASE_URL @ fname),
             Open (PathDiv save_dir fname), Write (PathDiv save_dir fname) content,
             Print (LogOk date fname)])
         \<and> attempts_made (snd (download_file_async float_py w (Some fname) date save_dir)) = 2
         \<and> waits_before_attempts (snd (download_file_async float_py w (Some fname) date save_dir))
             = [1 / 10, 3]"
proof -
  have parse: "float_py (case retry_after_header r0 of None \<Rightarrow> ''5'' | Some v \<Rightarrow> v)
                 = Some (Finite 2)"
    using assms(3,4) by simp
  have lim: "(0::nat) < max_retries" by (simp add: max_retries_def)
  have one: "get_result w (Suc 0) = Inr r1" "open_result w (Suc 0) = None"
    "write_result w (Suc 0) = None"
    using assms(5,8,9) by simp_all
  have it0: "iteration float_py w (BASE_URL @ fname) (PathDiv save_dir fname) date fname 0 =
      (Continue, pre_delay date 0 @ [Get (BASE_URL @ fname), Print (LogRateLimited date (Finite 2)), Sleep 2])"
    using assms(1,2) lim parse by (rule iteration_rate_limited)
  have "download_file_async float_py w (Some fname) date save_dir =
           (Returned True,
            [Sleep (1 / 10), Get (BASE_URL @ fname), Print (LogRateLimited date (Finite 2)), Sleep 2,
             Print (LogRetry date 1 1), Sleep 1, Get (BASE_URL @ fname),
             Open (PathDiv save_dir fname), Write (PathDiv save_dir fname) content,
             Print (LogOk date fname)])"
    unfolding download_file_async_Some
    by (simp add: it0
          iteration_ok [OF one(1) assms(6,7) one(2,3)] pre_delay_def base_delay_def)
  then show ?thesis
    by (simp add: attempts_made_def waits_before_attempts_def)
qed

text \<open>
  The theorem at the world whose first request returns 429 with \<open>Retry-After: 2\<close> and whose
  second returns 200.
\<close>

theorem rate_limited_then_ok_witness:
  "float_digits ''2'' = Some (Finite 2)
   \<and> download_file_async float_digits
       (world_of (\<lambda>k. if k = 0 then Inr (rate_limited_response ''2'') else Inr (ok_response ''data'')))
       (Some ''f.csv'') example_date ''dir'' =
     (Returned True,
      [Sleep (1 / 10), Get (BASE_URL @ ''f.csv''), Print (LogRateLimited example_date (Finite 2)), Sleep 2,
       Print (LogRetry example_date 1 1), Sleep 1, Get (BASE_URL @ ''f.csv''),
       Open (PathDiv ''dir'' ''f.csv''), Write (PathDiv ''dir'' ''f.csv'') ''data'',
       Print (LogOk example_date ''f.csv'')])
   \<and> waits_before_attempts (snd (download_file_async float_digits
       (world_of (\<lambda>k. if k = 0 then Inr (rate_limited_response ''2'') else Inr (ok_response ''data'')))
       (Some ''f.csv'') example_date ''dir'')) = [1 / 10, 3]"
  using rate_limited_then_ok [of
      "world_of (\<lambda>k. if k = 0 then Inr (rate_limited_response ''2'') else Inr (ok_response ''data''))"
      "rate_limited_response ''2''" float_digits "ok_response ''data''" "''data''"
      "''f.csv''" example_date "''dir''"]
  by (simp add: world_defs float_digits_2 waits_before_attempts_def)

text \<open>
  Claim C2 as stated fails in that world: the sleeps of the run are 0.1 s, 2 s and 1 s, so
  the wait before the second request is not 2 s.
\<close>

theorem retry_after_wait_counterexample:
  "fst (download_file_async float_digits
       (world_of (\<lambda>k. if k = 0 then Inr (rate_limited_response ''2'') else Inr (ok_response ''data'')))
       (Some ''f.csv'') example_date ''dir'') = Returned True
   \<and> sleeps (snd (download_file_async float_digits
       (world_of (\<lambda>k. if k = 0 then Inr (rate_limited_response ''2'') else Inr (ok_response ''data'')))
       (Some ''f.csv'') example_date ''dir'')) = [1 / 10, 2, 1]
   \<and> waits_before_attempts (snd (download_file_async float_digits
       (world_of (\<lambda>k. if k = 0 then Inr (rate_limited_response ''2'') else Inr (ok_response ''data'')))
       (Some ''f.csv'') example_date ''dir'')) ! 1 \<noteq> 2"
  by (simp add: download_file_async_Some world_defs engine_defs retries_left float_digits_2
        waits_before_attempts_def)




section \<open>A request without a file name\<close>




section \<open>The planned dates\<close>










end
